theory Spec2Isabelle
  imports Main "HOL-Library.Word"
begin

section \<open>RPC call correlation: \<^verbatim>\<open>rtmpy/rpc.py\<close>\<close>

subsection \<open>Constants and values\<close>

text \<open>
  Python values that only travel through the code (call arguments, results, the
  \<^verbatim>\<open>command\<close> keyword) are kept abstract as the type variable \<open>'v\<close>. Call ids are
  Python integers, so unbounded \<open>int\<close>. An optional keyword argument read with
  \<^verbatim>\<open>kwargs.get('command', None)\<close> is an \<open>option\<close>.
\<close>

definition NO_RESULT :: int where
  "NO_RESULT = 0"

definition RESPONSE_RESULT :: string where
  "RESPONSE_RESULT = ''_result''"

definition RESPONSE_ERROR :: string where
  "RESPONSE_ERROR = ''_error''"

text \<open>Exceptions that can leave the functions of this module.\<close>

datatype exn = NotImplementedError | TransportError string

text \<open>\<^verbatim>\<open>class RemoteCallFailed(failure.Failure)\<close>: a failure wrapping the peer's payload.\<close>

datatype 'v RemoteCallFailed = RemoteCallFailed 'v

text \<open>\<^verbatim>\<open>message.Invoke(name, callId, command, *args)\<close>: the message handed to the sender.\<close>

datatype 'v Invoke = Invoke string int "'v option" "'v list"

text \<open>
  A \<^verbatim>\<open>defer.Deferred\<close> is an object of the Twisted library; the model keeps a handle
  for it and records each invocation of its success path (\<^verbatim>\<open>d.callback\<close>) or failure
  path (\<^verbatim>\<open>d.errback\<close>) in order.
\<close>

type_synonym deferred = nat

datatype 'v fire = Callback deferred 'v | Errback deferred "'v RemoteCallFailed"

text \<open>
  Each \<^verbatim>\<open>log.msg\<close> call of the module is one constructor, carrying the values that
  the format string interpolates.
\<close>

datatype 'v logmsg =
    LogNotExpected
  | LogResponseContext string 'v
  | LogUnknownCallId int string 'v
  | LogReceivedCommand 'v 'v
  | LogInResponseTo string "'v list"
  | LogUnknownResponseType string
  | LogResult 'v
  | LogOriginalCall string "'v list" "'v option"

subsection \<open>\<^verbatim>\<open>BaseCallHandler\<close>\<close>

text \<open>
  The instance attributes \<^verbatim>\<open>_lastCallId\<close> and \<^verbatim>\<open>_activeCalls\<close> (a dict from call id
  to the stored context). The context is the tuple of positional arguments of
  \<^verbatim>\<open>initiateCall\<close>, of type \<open>'c\<close> here.
\<close>

record 'c BaseCallHandler =
  lastCallId :: int
  activeCalls :: "int \<rightharpoonup> 'c"

text \<open>\<^verbatim>\<open>__init__\<close>\<close>

definition BaseCallHandler_init :: "'c BaseCallHandler" where
  "BaseCallHandler_init = \<lparr>lastCallId = 0, activeCalls = Map.empty\<rparr>"

text \<open>\<^verbatim>\<open>dict.pop(key, None)\<close>: remove the key and return its value, or return the default.\<close>

definition dict_pop :: "'k \<Rightarrow> ('k \<rightharpoonup> 'a) \<Rightarrow> 'a option \<times> ('k \<rightharpoonup> 'a)" where
  "dict_pop k m = (case m k of None \<Rightarrow> (None, m) | Some v \<Rightarrow> (Some v, m(k := None)))"

definition isCallActive :: "int \<Rightarrow> ('c, 'z) BaseCallHandler_scheme \<Rightarrow> bool" where
  "isCallActive callId self = (callId \<in> dom (activeCalls self))"

definition getNextCallId :: "('c, 'z) BaseCallHandler_scheme \<Rightarrow> int" where
  "getNextCallId self = lastCallId self + 1"

definition getCallContext :: "int \<Rightarrow> ('c, 'z) BaseCallHandler_scheme \<Rightarrow> 'c option" where
  "getCallContext callId self = activeCalls self callId"

definition initiateCall ::
  "'c \<Rightarrow> ('c, 'z) BaseCallHandler_scheme \<Rightarrow> int \<times> ('c, 'z) BaseCallHandler_scheme" where
  "initiateCall args self =
     (let callId = getNextCallId self;
          self1 = self\<lparr>lastCallId := callId\<rparr>;
          self2 = self1\<lparr>activeCalls := (activeCalls self1)(callId \<mapsto> args)\<rparr>
      in (callId, self2))"

definition finishCall ::
  "int \<Rightarrow> ('c, 'z) BaseCallHandler_scheme \<Rightarrow> 'c option \<times> ('c, 'z) BaseCallHandler_scheme" where
  "finishCall callId self =
     (let (r, m) = dict_pop callId (activeCalls self) in (r, self\<lparr>activeCalls := m\<rparr>))"

definition discardCall ::
  "int \<Rightarrow> ('c, 'z) BaseCallHandler_scheme \<Rightarrow> 'c option \<times> ('c, 'z) BaseCallHandler_scheme" where
  "discardCall callId self =
     (let (r, m) = dict_pop callId (activeCalls self) in (r, self\<lparr>activeCalls := m\<rparr>))"

text \<open>
  A sequence of operations on one handler. \<open>exec\<close> runs it and collects, in order, the
  ids that the \<^verbatim>\<open>initiateCall\<close> calls returned.
\<close>

datatype 'c call_op = InitiateCall 'c | FinishCall int | DiscardCall int

fun is_initiate :: "'c call_op \<Rightarrow> bool" where
  "is_initiate (InitiateCall _) = True"
| "is_initiate _ = False"

fun exec ::
  "'c call_op list \<Rightarrow> ('c, 'z) BaseCallHandler_scheme
     \<Rightarrow> int list \<times> ('c, 'z) BaseCallHandler_scheme" where
  "exec [] self = ([], self)"
| "exec (InitiateCall args # ops) self =
     (let (callId, self1) = initiateCall args self;
          (ids, self2) = exec ops self1
      in (callId # ids, self2))"
| "exec (FinishCall callId # ops) self = exec ops (snd (finishCall callId self))"
| "exec (DiscardCall callId # ops) self = exec ops (snd (discardCall callId self))"

subsection \<open>\<^verbatim>\<open>AbstractCallInitiator\<close>\<close>

text \<open>
  The subclass stores the context \<^verbatim>\<open>(d, name, args, command)\<close>. Its effects on the world
  outside the registry are kept as traces in the state: \<open>sent\<close> holds every message
  handed to \<^verbatim>\<open>sendMessage\<close>, \<open>logged\<close> every \<^verbatim>\<open>log.msg\<close> call, \<open>fired\<close> every
  invocation of a Deferred, and \<open>deferreds\<close> counts the Deferred objects created so far
  (the next handle). The registry of an initiator holds the contexts that
  \<^verbatim>\<open>callRemoteWithResult\<close> stores, so a context is this 4-tuple; a context of another
  shape, which a direct \<^verbatim>\<open>initiateCall\<close> could store and \<^verbatim>\<open>handleRemoteResponse\<close> could
  not unpack, is outside the type.
\<close>

type_synonym 'v call_context = "deferred \<times> string \<times> 'v list \<times> 'v option"

record 'v AbstractCallInitiator = "'v call_context BaseCallHandler" +
  sent :: "'v Invoke list"
  logged :: "'v logmsg list"
  fired :: "'v fire list"
  deferreds :: nat

definition AbstractCallInitiator_init :: "'v AbstractCallInitiator" where
  "AbstractCallInitiator_init =
     \<lparr>lastCallId = 0, activeCalls = Map.empty, sent = [], logged = [], fired = [], deferreds = 0\<rparr>"

text \<open>
  \<^verbatim>\<open>sendMessage\<close> is abstract: subclasses implement it over their transport. A sender
  is the function saying, for each message, whether the call raises (\<open>Some e\<close>) or
  returns (\<open>None\<close>); it acts on the transport and not on the registry. The
  implementation of the class itself always raises.
\<close>

type_synonym 'v sender = "'v Invoke \<Rightarrow> exn option"

definition abstract_sender :: "'v sender" where
  "abstract_sender msg = Some NotImplementedError"

definition sendMessage ::
  "'v sender \<Rightarrow> 'v Invoke \<Rightarrow> 'v AbstractCallInitiator \<Rightarrow> exn option \<times> 'v AbstractCallInitiator" where
  "sendMessage sender msg self = (sender msg, self\<lparr>sent := sent self @ [msg]\<rparr>)"

definition log_msg :: "'v logmsg \<Rightarrow> 'v AbstractCallInitiator \<Rightarrow> 'v AbstractCallInitiator" where
  "log_msg m self = self\<lparr>logged := logged self @ [m]\<rparr>"

definition fire :: "'v fire \<Rightarrow> 'v AbstractCallInitiator \<Rightarrow> 'v AbstractCallInitiator" where
  "fire f self = self\<lparr>fired := fired self @ [f]\<rparr>"

definition callRemote ::
  "'v sender \<Rightarrow> string \<Rightarrow> 'v list \<Rightarrow> 'v option \<Rightarrow> 'v AbstractCallInitiator
     \<Rightarrow> (exn + unit) \<times> 'v AbstractCallInitiator" where
  "callRemote sender name args command self =
     (let msg = Invoke name NO_RESULT command args
      in case sendMessage sender msg self of
           (Some e, self1) \<Rightarrow> (Inl e, self1)
         | (None, self1) \<Rightarrow> (Inr (), self1))"

definition callRemoteWithResult ::
  "'v sender \<Rightarrow> string \<Rightarrow> 'v list \<Rightarrow> 'v option \<Rightarrow> 'v AbstractCallInitiator
     \<Rightarrow> (exn + deferred) \<times> 'v AbstractCallInitiator" where
  "callRemoteWithResult sender name args command self =
     (let d = deferreds self;
          self0 = self\<lparr>deferreds := Suc (deferreds self)\<rparr>;
          (callId, self1) = initiateCall (d, name, args, command) self0;
          m = Invoke name callId command args
      in case sendMessage sender m self1 of
           (Some e, self2) \<Rightarrow> (Inl e, snd (discardCall callId self2))
         | (None, self2) \<Rightarrow> (Inr d, self2))"

definition handleRemoteResponse ::
  "string \<Rightarrow> int \<Rightarrow> 'v \<Rightarrow> 'v option \<Rightarrow> 'v AbstractCallInitiator
     \<Rightarrow> (exn + unit) \<times> 'v AbstractCallInitiator" where
  "handleRemoteResponse name callId result command self =
     (case finishCall callId self of
        (None, self1) \<Rightarrow>
          (if callId = NO_RESULT
           then (Inr (), log_msg (LogResponseContext name result) (log_msg LogNotExpected self1))
           else (Inr (), log_msg (LogUnknownCallId callId name result) self1))
      | (Some (d, originalName, originalArgs, originalCommand), self1) \<Rightarrow>
          (let self2 = (case command of
                          None \<Rightarrow> self1
                        | Some c \<Rightarrow> log_msg (LogInResponseTo originalName originalArgs)
                                     (log_msg (LogReceivedCommand c result) self1))
           in if name = RESPONSE_RESULT then (Inr (), fire (Callback d result) self2)
              else if name = RESPONSE_ERROR
              then (Inr (), fire (Errback d (RemoteCallFailed result)) self2)
              else (Inr (),
                    log_msg (LogOriginalCall originalName originalArgs originalCommand)
                      (log_msg (LogResult result)
                        (log_msg (LogUnknownResponseType name) self2)))))"

text \<open>
  A registry with one call in flight, as \<^verbatim>\<open>callRemoteWithResult('connect')\<close> leaves a fresh
  initiator after a successful send. It is the concrete state of the examples below.
\<close>

definition one_pending :: "nat AbstractCallInitiator" where
  "one_pending =
     \<lparr>lastCallId = 1, activeCalls = [1 \<mapsto> (0, ''connect'', [], None)],
      sent = [Invoke ''connect'' 1 None []], logged = [], fired = [], deferreds = 1\<rparr>"

section \<open>Decoder: \<^verbatim>\<open>rtmpy/protocol/rtmp/codec.py\<close>\<close>

text \<open>
  The codec module is not among the sources; its tests (\<^verbatim>\<open>tests/rtmp/test_decoder.py\<close>)
  are. The definitions of this section follow section 4.4 of the specification and the
  collaborators of the test case: a demultiplexer that yields queued results, a stream
  factory that returns the same stream for the same id and creates a stream with
  \<^verbatim>\<open>timestamp = 0\<close>, and a dispatcher that records its calls.
\<close>

text \<open>
  Modelled from the spec: the channel meta data that comes with a demultiplexed message
  (\<^verbatim>\<open>IChannelMeta\<close> of the missing codec module): the resolved header fields. The
  datatype is an optional byte.
\<close>

record ChannelMeta =
  meta_channelId :: int
  meta_datatype :: "int option"
  meta_streamId :: int
  meta_timestamp :: int

text \<open>
  Modelled from the spec: one result of the missing \<^verbatim>\<open>ChannelDemuxer.next\<close>, either the
  progress tick \<^verbatim>\<open>(None, None)\<close> or a whole message \<^verbatim>\<open>(data, meta)\<close>.
\<close>

datatype 'b demux_result = Tick | Message 'b ChannelMeta

text \<open>
  Modelled from the spec: the stream object that the missing stream factory owns; the
  decoder only touches its running \<^verbatim>\<open>timestamp\<close>.
\<close>

record Stream =
  stream_timestamp :: int

text \<open>
  Modelled from the spec: what leaves the missing \<^verbatim>\<open>Decoder.next\<close> as an exception: the
  end of the iteration, or whatever the dispatcher raised.
\<close>

datatype 'e codec_exn = EndOfStream | Raised 'e

text \<open>
  Modelled from the spec: the state of the missing \<^verbatim>\<open>Decoder\<close> with its collaborators.
  \<open>demuxer\<close> holds the results the demultiplexer will yield, \<open>streams\<close> is the stream
  factory's table from stream id to stream, and \<open>dispatched\<close> lists the calls made to
  the dispatcher as \<^verbatim>\<open>(stream, datatype, timestamp, data)\<close>, the stream named by its id.
\<close>

record 'b Decoder =
  demuxer :: "'b demux_result list"
  streams :: "int \<rightharpoonup> Stream"
  dispatched :: "(int \<times> int option \<times> int \<times> 'b) list"

text \<open>
  Modelled from the spec: \<^verbatim>\<open>stream_factory.getStream(streamId)\<close> of the missing stream
  factory, idempotent per stream id; a stream seen for the first time starts at
  timestamp 0, as \<^verbatim>\<open>MockStream\<close> of the tests does.
\<close>

definition getStream :: "int \<Rightarrow> 'b Decoder \<Rightarrow> Stream \<times> 'b Decoder" where
  "getStream streamId self =
     (case streams self streamId of
        Some s \<Rightarrow> (s, self)
      | None \<Rightarrow> (\<lparr>stream_timestamp = 0\<rparr>,
                 self\<lparr>streams := (streams self)(streamId \<mapsto> \<lparr>stream_timestamp = 0\<rparr>)\<rparr>))"

text \<open>
  Modelled from the spec: the missing \<^verbatim>\<open>Decoder.next\<close>. It pulls one demultiplexer
  result; a tick returns with no dispatch; otherwise it resolves the stream, adds the
  message's timestamp (a delta) to the stream's timestamp and calls the dispatcher with
  \<^verbatim>\<open>(stream, meta.datatype, stream.timestamp, data)\<close>. The dispatcher is the function
  saying whether that call raises; its exception is not caught.
\<close>

definition Decoder_next ::
  "(int \<times> int option \<times> int \<times> 'b \<Rightarrow> 'e option) \<Rightarrow> 'b Decoder
     \<Rightarrow> ('e codec_exn + unit) \<times> 'b Decoder" where
  "Decoder_next dispatcher self =
     (case demuxer self of
        [] \<Rightarrow> (Inl EndOfStream, self)
      | Tick # rest \<Rightarrow> (Inr (), self\<lparr>demuxer := rest\<rparr>)
      | Message data meta # rest \<Rightarrow>
          (let (stream, self1) = getStream (meta_streamId meta) (self\<lparr>demuxer := rest\<rparr>);
               stream1 = stream\<lparr>stream_timestamp := stream_timestamp stream + meta_timestamp meta\<rparr>;
               self2 = self1\<lparr>streams := (streams self1)(meta_streamId meta \<mapsto> stream1)\<rparr>;
               call = (meta_streamId meta, meta_datatype meta, stream_timestamp stream1, data);
               self3 = self2\<lparr>dispatched := dispatched self2 @ [call]\<rparr>
           in case dispatcher call of
                Some e \<Rightarrow> (Inl (Raised e), self3)
              | None \<Rightarrow> (Inr (), self3)))"

text \<open>
  The decoder of \<^verbatim>\<open>DecoderTestCase.test_incrementing_timestamp\<close>: two messages queued
  on stream 2 with timestamps 2 and 3, no stream created yet.
\<close>

definition incrementing_decoder :: "string Decoder" where
  "incrementing_decoder =
     \<lparr>demuxer =
        [Message ''foo'' \<lparr>meta_channelId = 0, meta_datatype = None, meta_streamId = 2,
                          meta_timestamp = 2\<rparr>,
         Message ''foo'' \<lparr>meta_channelId = 0, meta_datatype = None, meta_streamId = 2,
                          meta_timestamp = 3\<rparr>],
      streams = Map.empty, dispatched = []\<rparr>"

section \<open>Handshake tokens: \<^verbatim>\<open>rtmpy/rtmp/handshake.py\<close>\<close>

text \<open>
  The handshake module is not among the sources; its tests
  (\<^verbatim>\<open>tests/rtmp/test_handshake.py\<close>) are. The definitions of this section follow section
  4.5 of the specification; where the tests assert a behaviour (an error message, the
  order of two checks), the tests decide.
\<close>

type_synonym bytes = "8 word list"

text \<open>
  Modelled from the spec: \<^verbatim>\<open>HandshakeError\<close> of the missing handshake module, with its
  message.
\<close>

datatype handshake_exn = HandshakeError string

text \<open>
  Modelled from the spec: the primitives and constants of the missing handshake module
  that the token methods use, taken as parameters: the keyed digest
  \<^verbatim>\<open>_digest(key, payload)\<close>, the server's digest key, the minimum client version that
  supports digests, the window size of the digest offset, and the generator of
  pseudo-random bytes.
\<close>

record handshake_env =
  digest :: "bytes \<Rightarrow> bytes \<Rightarrow> bytes"
  SERVER_KEY :: bytes
  H264_MIN_FLASH :: "32 word"
  digest_window :: nat
  generateBytes :: "nat \<Rightarrow> bytes"

text \<open>
  Modelled from the spec: the lengths of the missing handshake module: a token payload
  has 1536 bytes, a digest 32.
\<close>

definition HANDSHAKE_LENGTH :: nat where
  "HANDSHAKE_LENGTH = 1536"

definition SHA256_DIGEST_LENGTH :: nat where
  "SHA256_DIGEST_LENGTH = 32"

text \<open>
  Modelled from the spec: the missing classes \<^verbatim>\<open>Token\<close>, \<^verbatim>\<open>ClientToken\<close> and
  \<^verbatim>\<open>ServerToken\<close>. A token has an uptime and a version (unsigned 32-bit) and a payload
  or none. The fields \<open>client_digest\<close> and \<open>server_digest\<close> are the attribute
  \<^verbatim>\<open>_digest\<close> of the two subclasses, \<open>None\<close> while the attribute is not set. A server
  token refers to the client token it answers, or to none.
\<close>

record Token =
  uptime :: "32 word"
  version :: "32 word"
  payload :: "bytes option"

record ClientToken = Token +
  client_digest :: "bytes option"

record ServerToken = Token +
  client :: "ClientToken option"
  server_digest :: "bytes option"

text \<open>
  Modelled from the spec: the constructors of the missing classes, with the defaults
  that \<^verbatim>\<open>TokenClassTestCase.test_init\<close> asserts (uptime 0, version 0, no payload).
\<close>

definition ClientToken_init :: ClientToken where
  "ClientToken_init = \<lparr>uptime = 0, version = 0, payload = None, client_digest = None\<rparr>"

definition ServerToken_init :: "ClientToken option \<Rightarrow> ServerToken" where
  "ServerToken_init c =
     \<lparr>uptime = 0, version = 0, payload = None, client = c, server_digest = None\<rparr>"

text \<open>Modelled from the spec: the big-endian four bytes that \<^verbatim>\<open>write_ulong\<close> writes.\<close>

definition be32 :: "32 word \<Rightarrow> bytes" where
  "be32 w = [ucast (drop_bit 24 w), ucast (drop_bit 16 w), ucast (drop_bit 8 w), ucast w]"

text \<open>
  Modelled from the spec: the missing \<^verbatim>\<open>ClientToken.getDigest\<close>. It fails when the payload
  is absent (the message is the one \<^verbatim>\<open>ClientTokenClassTestCase.test_getDigest\<close> asserts),
  returns \<^verbatim>\<open>None\<close> for a version below the minimum, and otherwise reads the 32 bytes at
  the offset computed from the four payload bytes 8 to 11 (their sum, modulo the window
  size, plus the base offset 12 that the same test fixes). The value is kept in
  \<^verbatim>\<open>_digest\<close>, which the test deletes to force a second computation.
\<close>

definition ClientToken_getDigest ::
  "handshake_env \<Rightarrow> ClientToken \<Rightarrow> (handshake_exn + bytes option) \<times> ClientToken" where
  "ClientToken_getDigest env self =
     (case client_digest self of
        Some d \<Rightarrow> (Inr (Some d), self)
      | None \<Rightarrow>
          (case payload self of
             None \<Rightarrow> (Inl (HandshakeError ''No digest available for an empty handshake''), self)
           | Some p \<Rightarrow>
               if version self < H264_MIN_FLASH env then (Inr None, self)
               else (let offset = sum_list (map unat (take 4 (drop 8 p))) mod digest_window env + 12;
                         d = take SHA256_DIGEST_LENGTH (drop offset p)
                     in (Inr (Some d), self\<lparr>client_digest := Some d\<rparr>))))"

text \<open>
  Modelled from the spec: the missing \<^verbatim>\<open>ServerToken.getDigest\<close>. A digest already kept in
  \<^verbatim>\<open>_digest\<close> is returned as it is. Otherwise the token needs a payload
  (\<^verbatim>\<open>ServerTokenDigestTestCase.test_no_payload\<close>); it returns \<^verbatim>\<open>None\<close> when the client token
  is absent (\<^verbatim>\<open>test_version\<close>) or has no digest (\<^verbatim>\<open>test_client_version\<close>); otherwise it
  computes the keyed digest of the client's digest under the server key and keeps it.
\<close>

definition ServerToken_getDigest ::
  "handshake_env \<Rightarrow> ServerToken \<Rightarrow> (handshake_exn + bytes option) \<times> ServerToken" where
  "ServerToken_getDigest env self =
     (case server_digest self of
        Some d \<Rightarrow> (Inr (Some d), self)
      | None \<Rightarrow>
          (case payload self of
             None \<Rightarrow> (Inl (HandshakeError ''No digest available for an empty handshake''), self)
           | Some p \<Rightarrow>
               (case client self of
                  None \<Rightarrow> (Inr None, self)
                | Some c \<Rightarrow>
                    (case ClientToken_getDigest env c of
                       (Inl e, c1) \<Rightarrow> (Inl e, self\<lparr>client := Some c1\<rparr>)
                     | (Inr None, c1) \<Rightarrow> (Inr None, self\<lparr>client := Some c1\<rparr>)
                     | (Inr (Some cd), c1) \<Rightarrow>
                         (let d = digest env (SERVER_KEY env) cd
                          in (Inr (Some d), self\<lparr>client := Some c1, server_digest := Some d\<rparr>))))))"

text \<open>
  Modelled from the spec: the missing \<^verbatim>\<open>ServerToken.generatePayload\<close>. It is idempotent:
  with a payload present it does nothing. It requires a populated client token. With no
  client token at all the error is the one the specification words; with a client token
  that has no payload the error is the one
  \<^verbatim>\<open>ServerTokenClassTestCase.test_generate_payload\<close> asserts. The payload is the token's own
  1536 bytes (uptime, version, random bytes) followed by a copy of the client's payload;
  when the client has a digest, the last 32 bytes of the own block are the keyed digest,
  under the server's digest, of the rest of the block followed by the client's payload.
  The server's own digest is asked for only when the client has one (the same test
  replaces \<^verbatim>\<open>getDigest\<close> by a function that raises).
\<close>

definition ServerToken_generatePayload ::
  "handshake_env \<Rightarrow> ServerToken \<Rightarrow> (handshake_exn + unit) \<times> ServerToken" where
  "ServerToken_generatePayload env self =
     (case payload self of
        Some p \<Rightarrow> (Inr (), self)
      | None \<Rightarrow>
          (case client self of
             None \<Rightarrow>
               (Inl (HandshakeError ''client token is required before generating server token''),
                self)
           | Some c \<Rightarrow>
               (case payload c of
                  None \<Rightarrow>
                    (Inl (HandshakeError ''No digest available for an empty handshake''), self)
                | Some cp \<Rightarrow>
                    (let own = be32 (uptime self) @ be32 (version self)
                               @ generateBytes env (HANDSHAKE_LENGTH - 8)
                     in case ClientToken_getDigest env c of
                          (Inl e, c1) \<Rightarrow> (Inl e, self\<lparr>client := Some c1\<rparr>)
                        | (Inr None, c1) \<Rightarrow>
                            (Inr (), self\<lparr>payload := Some (own @ cp), client := Some c1\<rparr>)
                        | (Inr (Some cd), c1) \<Rightarrow>
                            (case ServerToken_getDigest env
                                    (self\<lparr>payload := Some own, client := Some c1\<rparr>) of
                               (Inl e, self1) \<Rightarrow> (Inl e, self1\<lparr>payload := None\<rparr>)
                             | (Inr None, self1) \<Rightarrow>
                                 (Inr (), self1\<lparr>payload := Some (own @ cp)\<rparr>)
                             | (Inr (Some key), self1) \<Rightarrow>
                                 (let block = take (HANDSHAKE_LENGTH - SHA256_DIGEST_LENGTH) own
                                  in (Inr (), self1\<lparr>payload :=
                                        Some (block @ digest env key (block @ cp) @ cp)\<rparr>)))))))"

text \<open>
  An environment for the examples below: a digest primitive that returns 32 zero bytes,
  an empty server key, the minimum client version 9.0.115.0, the window size 728 and a
  byte generator that returns zeros.
\<close>

definition example_env :: handshake_env where
  "example_env =
     \<lparr>digest = (\<lambda>key msg. replicate 32 0), SERVER_KEY = [], H264_MIN_FLASH = 0x09007300,
      digest_window = 728, generateBytes = (\<lambda>n. replicate n 0)\<rparr>"

text \<open>
  The server token of \<^verbatim>\<open>ServerTokenClassTestCase.test_generate_payload\<close>: built on a fresh
  client token, neither of them with a payload.
\<close>

definition unpopulated_server :: ServerToken where
  "unpopulated_server = ServerToken_init (Some ClientToken_init)"

text \<open>
  The server token of \<^verbatim>\<open>ServerTokenDigestTestCase.test_digest\<close>: its payload is
  \<^verbatim>\<open>'a'\<close>, its client has version 9.0.115.0 and a payload of eight zero bytes, four
  bytes 1, four bytes 2 and 32 zero bytes.
\<close>

definition digest_server :: ServerToken where
  "digest_server =
     \<lparr>uptime = 0, version = 0x03000101, payload = Some [97],
      client = Some \<lparr>uptime = 0, version = 0x09007300,
                     payload = Some (replicate 8 0 @ replicate 4 1 @ replicate 4 2 @ replicate 32 0),
                     client_digest = None\<rparr>,
      server_digest = None\<rparr>"

text \<open>
  The server token of \<^verbatim>\<open>ServerTokenDigestTestCase.test_version\<close>: it has a payload and
  its client token was set to \<^verbatim>\<open>None\<close>.
\<close>

definition orphan_server :: ServerToken where
  "orphan_server = (ServerToken_init None)\<lparr>payload := Some [97]\<rparr>"

text \<open>
  The server token of \<^verbatim>\<open>ServerTokenDigestTestCase.test_client_version\<close>: both tokens have
  a payload, and the client's version is 0, below the minimum for digests.
\<close>

definition legacy_server :: ServerToken where
  "legacy_server =
     \<lparr>uptime = 0, version = 0x03000101, payload = Some [97],
      client = Some (ClientToken_init\<lparr>payload := Some (replicate 1536 0)\<rparr>),
      server_digest = None\<rparr>"

section \<open>Properties of the call registry\<close>

subsection \<open>What each operation does to the state\<close>

lemma dict_pop_fst: "fst (dict_pop k m) = m k"
  by (simp add: dict_pop_def split: option.splits)

lemma dict_pop_snd: "snd (dict_pop k m) = m(k := None)"
  by (auto simp add: dict_pop_def split: option.splits)

lemma finishCall_eq:
  "finishCall callId self =
     (activeCalls self callId, self\<lparr>activeCalls := (activeCalls self)(callId := None)\<rparr>)"
  by (simp add: finishCall_def split_def dict_pop_fst dict_pop_snd)

lemma discardCall_eq:
  "discardCall callId self =
     (activeCalls self callId, self\<lparr>activeCalls := (activeCalls self)(callId := None)\<rparr>)"
  by (simp add: discardCall_def split_def dict_pop_fst dict_pop_snd)

lemma finishCall_inactive:
  "activeCalls self callId = None \<Longrightarrow> finishCall callId self = (None, self)"
  by (simp add: finishCall_def dict_pop_def)

lemma initiateCall_eq:
  "initiateCall args self =
     (lastCallId self + 1,
      self\<lparr>lastCallId := lastCallId self + 1,
           activeCalls := (activeCalls self)(lastCallId self + 1 \<mapsto> args)\<rparr>)"
  by (simp add: initiateCall_def getNextCallId_def Let_def)

subsection \<open>Call ids\<close>

lemma exec_ids:
  "fst (exec ops self)
     = [lastCallId self + 1 .. lastCallId self + int (length (filter is_initiate ops))]"
proof (induction ops arbitrary: self)
  case Nil
  show ?case by simp
next
  case (Cons a ops)
  show ?case
  proof (cases a)
    case (InitiateCall c)
    have "[lastCallId self + 1 .. lastCallId self + (1 + int (length (filter is_initiate ops)))]
          = (lastCallId self + 1)
            # [lastCallId self + 1 + 1 .. lastCallId self + (1 + int (length (filter is_initiate ops)))]"
      by (rule upto_rec1) simp
    then show ?thesis using InitiateCall
      by (simp add: Cons.IH initiateCall_eq split_def Let_def add.assoc)
  next
    case (FinishCall k)
    then show ?thesis by (simp add: Cons.IH finishCall_eq)
  next
    case (DiscardCall k)
    then show ?thesis by (simp add: Cons.IH discardCall_eq)
  qed
qed

text \<open>
  Claim C1. Whatever the state, \<^verbatim>\<open>initiateCall\<close> returns \<^verbatim>\<open>_lastCallId + 1\<close>. Over any
  sequence of \<^verbatim>\<open>initiateCall\<close>, \<^verbatim>\<open>finishCall\<close> and \<^verbatim>\<open>discardCall\<close> on one handler, from any
  state, the ids returned by the \<^verbatim>\<open>initiateCall\<close> calls are, in order, the consecutive
  integers that follow the starting \<^verbatim>\<open>_lastCallId\<close>: the list is strictly increasing and
  no id occurs twice, whichever calls were finished or discarded in between.
\<close>

theorem initiateCall_ids_strictly_increasing:
  "fst (initiateCall args self) = lastCallId self + 1
   \<and> fst (exec ops self)
       = [lastCallId self + 1 .. lastCallId self + int (length (filter is_initiate ops))]
   \<and> sorted_wrt (<) (fst (exec ops self))
   \<and> distinct (fst (exec ops self))"
  by (simp add: exec_ids initiateCall_eq sorted_wrt_upto)

subsection \<open>Finishing and discarding\<close>

text \<open>
  Claim C6. \<^verbatim>\<open>finishCall\<close> and \<^verbatim>\<open>discardCall\<close> are the same function of the call id and the
  registry: both return the stored context and remove the entry, or return \<^verbatim>\<open>None\<close> and
  leave the registry as it is when the id has no active call.
\<close>

theorem finishCall_discardCall_equal:
  "(finishCall :: int \<Rightarrow> ('c, 'z) BaseCallHandler_scheme \<Rightarrow> _) = discardCall
   \<and> finishCall callId self = discardCall callId self
   \<and> finishCall callId self =
       (case activeCalls self callId of
          None \<Rightarrow> (None, self)
        | Some c \<Rightarrow> (Some c, self\<lparr>activeCalls := (activeCalls self)(callId := None)\<rparr>))"
  by (auto simp add: finishCall_eq discardCall_eq fun_eq_iff split: option.splits)

subsection \<open>The sentinel id\<close>

lemma exec_sentinel:
  "0 \<le> lastCallId self \<Longrightarrow> activeCalls self 0 = None
     \<Longrightarrow> activeCalls (snd (exec ops self)) 0 = None"
proof (induction ops arbitrary: self)
  case Nil
  then show ?case by simp
next
  case (Cons a ops)
  show ?case
  proof (cases a)
    case (InitiateCall c)
    let ?s = "snd (initiateCall c self)"
    have "0 \<le> lastCallId ?s" and "activeCalls ?s 0 = None"
      using Cons.prems by (simp_all add: initiateCall_eq)
    then have "activeCalls (snd (exec ops ?s)) 0 = None"
      by (rule Cons.IH)
    then show ?thesis using InitiateCall by (simp add: split_def Let_def)
  next
    case (FinishCall k)
    let ?s = "snd (finishCall k self)"
    have "0 \<le> lastCallId ?s" and "activeCalls ?s 0 = None"
      using Cons.prems by (simp_all add: finishCall_eq)
    then have "activeCalls (snd (exec ops ?s)) 0 = None"
      by (rule Cons.IH)
    then show ?thesis using FinishCall by simp
  next
    case (DiscardCall k)
    let ?s = "snd (discardCall k self)"
    have "0 \<le> lastCallId ?s" and "activeCalls ?s 0 = None"
      using Cons.prems by (simp_all add: discardCall_eq)
    then have "activeCalls (snd (exec ops ?s)) 0 = None"
      by (rule Cons.IH)
    then show ?thesis using DiscardCall by simp
  qed
qed

lemma handleRemoteResponse_inactive:
  "activeCalls self callId = None \<Longrightarrow>
   handleRemoteResponse name callId result command self =
     (Inr (), self\<lparr>logged := logged self @
        (if callId = NO_RESULT then [LogNotExpected, LogResponseContext name result]
         else [LogUnknownCallId callId name result])\<rparr>)"
  by (simp add: handleRemoteResponse_def finishCall_inactive log_msg_def)

text \<open>
  Claim C10. In every state reached from construction by \<^verbatim>\<open>initiateCall\<close>, \<^verbatim>\<open>finishCall\<close>
  and \<^verbatim>\<open>discardCall\<close>, the sentinel id \<^verbatim>\<open>NO_RESULT\<close> (0) is not a key of the active calls:
  \<^verbatim>\<open>isCallActive(0)\<close> is false and \<^verbatim>\<open>finishCall(0)\<close> returns \<^verbatim>\<open>None\<close>; and on an
  initiator \<^verbatim>\<open>handleRemoteResponse\<close> with id 0 takes the branch for a response that was
  not expected, which logs two lines and changes nothing else.
\<close>

theorem sentinel_id_never_active:
  "\<not> isCallActive NO_RESULT (snd (exec ops BaseCallHandler_init))
   \<and> fst (finishCall NO_RESULT (snd (exec ops BaseCallHandler_init))) = None
   \<and> \<not> isCallActive NO_RESULT (snd (exec ops' AbstractCallInitiator_init))
   \<and> fst (finishCall NO_RESULT (snd (exec ops' AbstractCallInitiator_init))) = None
   \<and> handleRemoteResponse name NO_RESULT result command
         (snd (exec ops' AbstractCallInitiator_init))
       = (Inr (), (snd (exec ops' AbstractCallInitiator_init))
            \<lparr>logged := logged (snd (exec ops' AbstractCallInitiator_init))
                         @ [LogNotExpected, LogResponseContext name result]\<rparr>)"
proof -
  have a: "activeCalls (snd (exec ops BaseCallHandler_init)) 0 = None"
    by (rule exec_sentinel) (simp_all add: BaseCallHandler_init_def)
  have b: "activeCalls (snd (exec ops' AbstractCallInitiator_init)) 0 = None"
    by (rule exec_sentinel) (simp_all add: AbstractCallInitiator_init_def)
  show ?thesis
    using a b
    by (simp add: isCallActive_def NO_RESULT_def finishCall_eq domIff
        handleRemoteResponse_inactive [where callId = 0, unfolded NO_RESULT_def])
qed

subsection \<open>Responses\<close>

text \<open>
  Claim C2. When the call id is not an active call, \<^verbatim>\<open>handleRemoteResponse\<close> returns
  normally and changes nothing but the log: the active calls and \<^verbatim>\<open>_lastCallId\<close> are as
  before. With id 0 it logs that a response arrived where none was expected, with its
  context; with any other id it logs the unknown call id.
\<close>

theorem handleRemoteResponse_unknown_callId:
  assumes "\<not> isCallActive callId self"
  shows "handleRemoteResponse name callId result command self =
           (Inr (), self\<lparr>logged := logged self @
              (if callId = NO_RESULT then [LogNotExpected, LogResponseContext name result]
               else [LogUnknownCallId callId name result])\<rparr>)
         \<and> fst (handleRemoteResponse name callId result command self) = Inr ()
         \<and> activeCalls (snd (handleRemoteResponse name callId result command self))
             = activeCalls self
         \<and> lastCallId (snd (handleRemoteResponse name callId result command self))
             = lastCallId self"
proof -
  from assms have "activeCalls self callId = None"
    unfolding isCallActive_def by blast
  then show ?thesis
    by (simp add: handleRemoteResponse_inactive)
qed

theorem handleRemoteResponse_unknown_callId_witness:
  "\<not> isCallActive 7 one_pending
   \<and> handleRemoteResponse ''_result'' 7 42 None one_pending
       = (Inr (), one_pending\<lparr>logged := [LogUnknownCallId 7 ''_result'' 42]\<rparr>)
   \<and> \<not> isCallActive 0 one_pending
   \<and> handleRemoteResponse ''_result'' 0 42 None one_pending
       = (Inr (), one_pending\<lparr>logged := [LogNotExpected, LogResponseContext ''_result'' 42]\<rparr>)"
proof -
  have h: "\<not> isCallActive 7 one_pending"
    by (simp add: isCallActive_def one_pending_def)
  have h0: "\<not> isCallActive 0 one_pending"
    by (simp add: isCallActive_def one_pending_def)
  show ?thesis
    using h h0 handleRemoteResponse_unknown_callId [OF h, of "''_result''" 42 None]
      handleRemoteResponse_unknown_callId [OF h0, of "''_result''" 42 None]
    by (simp add: NO_RESULT_def one_pending_def)
qed

text \<open>
  Claim C3. When the call id has an active call with context \<^verbatim>\<open>(d, name, args, command)\<close>,
  \<^verbatim>\<open>handleRemoteResponse\<close> removes the call from the registry and then: for the response
  name \<^verbatim>\<open>'_result'\<close> it calls \<^verbatim>\<open>d.callback(result)\<close>; for \<^verbatim>\<open>'_error'\<close> it calls
  \<^verbatim>\<open>d.errback(RemoteCallFailed(result))\<close>; for any other name it writes three log lines and
  invokes \<^verbatim>\<open>d\<close> on neither path. In all three cases the call is no longer active. (A
  \<^verbatim>\<open>command\<close> keyword, when given, adds two log lines first.)
\<close>

theorem handleRemoteResponse_active_call:
  assumes "getCallContext callId self = Some (d, originalName, originalArgs, originalCommand)"
  shows "handleRemoteResponse name callId result command self =
           (Inr (),
            self\<lparr>activeCalls := (activeCalls self)(callId := None),
                 logged := logged self
                   @ (case command of None \<Rightarrow> []
                      | Some c \<Rightarrow> [LogReceivedCommand c result,
                                   LogInResponseTo originalName originalArgs])
                   @ (if name = ''_result'' \<or> name = ''_error'' then []
                      else [LogUnknownResponseType name, LogResult result,
                            LogOriginalCall originalName originalArgs originalCommand]),
                 fired := fired self
                   @ (if name = ''_result'' then [Callback d result]
                      else if name = ''_error'' then [Errback d (RemoteCallFailed result)]
                      else [])\<rparr>)
         \<and> \<not> isCallActive callId (snd (handleRemoteResponse name callId result command self))"
  using assms
  by (cases command)
     (simp_all add: handleRemoteResponse_def finishCall_eq getCallContext_def log_msg_def fire_def
        RESPONSE_RESULT_def RESPONSE_ERROR_def isCallActive_def)

theorem handleRemoteResponse_active_call_witness:
  "getCallContext 1 one_pending = Some (0, ''connect'', [], None)
   \<and> handleRemoteResponse ''_error'' 1 42 None one_pending
       = (Inr (), one_pending\<lparr>activeCalls := Map.empty,
                               fired := [Errback 0 (RemoteCallFailed 42)]\<rparr>)
   \<and> handleRemoteResponse ''_result'' 1 42 None one_pending
       = (Inr (), one_pending\<lparr>activeCalls := Map.empty, fired := [Callback 0 42]\<rparr>)
   \<and> handleRemoteResponse ''onStatus'' 1 42 None one_pending
       = (Inr (), one_pending\<lparr>activeCalls := Map.empty,
            logged := [LogUnknownResponseType ''onStatus'', LogResult 42,
                       LogOriginalCall ''connect'' [] None]\<rparr>)"
proof -
  have h: "getCallContext 1 one_pending = Some (0, ''connect'', [], None)"
    by (simp add: getCallContext_def one_pending_def)
  show ?thesis
    using h handleRemoteResponse_active_call [OF h, of "''_error''" 42 None]
      handleRemoteResponse_active_call [OF h, of "''_result''" 42 None]
      handleRemoteResponse_active_call [OF h, of "''onStatus''" 42 None]
    by (simp add: one_pending_def)
qed

subsection \<open>Calls\<close>

text \<open>
  Claim C4. \<^verbatim>\<open>callRemoteWithResult\<close> takes the next call id and hands \<^verbatim>\<open>sendMessage\<close> one
  invoke message tagged with it. When the send returns, the new Deferred is returned and
  the call is registered under the id with context \<^verbatim>\<open>(d, name, args, command)\<close>. When the
  send raises, the same exception leaves \<^verbatim>\<open>callRemoteWithResult\<close> and the registry has no
  entry for the id.
\<close>

theorem callRemoteWithResult_failed_send_discards:
  "sent (snd (callRemoteWithResult sender name args command self))
     = sent self @ [Invoke name (lastCallId self + 1) command args]
   \<and> lastCallId (snd (callRemoteWithResult sender name args command self)) = lastCallId self + 1
   \<and> (sender (Invoke name (lastCallId self + 1) command args) = None \<longrightarrow>
        fst (callRemoteWithResult sender name args command self) = Inr (deferreds self)
        \<and> getCallContext (lastCallId self + 1)
              (snd (callRemoteWithResult sender name args command self))
            = Some (deferreds self, name, args, command))
   \<and> (sender (Invoke name (lastCallId self + 1) command args) = Some e \<longrightarrow>
        fst (callRemoteWithResult sender name args command self) = Inl e
        \<and> \<not> isCallActive (lastCallId self + 1)
              (snd (callRemoteWithResult sender name args command self))
        \<and> activeCalls (snd (callRemoteWithResult sender name args command self))
            = (activeCalls self)(lastCallId self + 1 := None))"
  by (cases "sender (Invoke name (lastCallId self + 1) command args)")
     (simp_all add: callRemoteWithResult_def initiateCall_eq sendMessage_def discardCall_eq
        getCallContext_def isCallActive_def Let_def)

theorem callRemoteWithResult_failed_send_discards_witness:
  "abstract_sender (Invoke ''connect'' (lastCallId one_pending + 1) None [])
     = Some NotImplementedError
   \<and> fst (callRemoteWithResult abstract_sender ''connect'' [] None one_pending)
       = Inl NotImplementedError
   \<and> \<not> isCallActive 2 (snd (callRemoteWithResult abstract_sender ''connect'' [] None one_pending))
   \<and> (\<lambda>m. None) (Invoke ''connect'' (lastCallId one_pending + 1) None []) = (None :: exn option)
   \<and> fst (callRemoteWithResult (\<lambda>m. None) ''connect'' [] None one_pending) = Inr 1
   \<and> getCallContext 2 (snd (callRemoteWithResult (\<lambda>m. None) ''connect'' [] None one_pending))
       = Some (1, ''connect'', [], None)"
  using callRemoteWithResult_failed_send_discards
          [of abstract_sender "''connect''" "[]" None one_pending NotImplementedError]
        callRemoteWithResult_failed_send_discards
          [of "\<lambda>m. None" "''connect''" "[]" None one_pending]
  by (simp add: abstract_sender_def one_pending_def)

text \<open>
  Claim C7, as stated, fails where the send raises: with the \<^verbatim>\<open>sendMessage\<close> of the
  class itself, which raises \<^verbatim>\<open>NotImplementedError\<close>, \<^verbatim>\<open>callRemote\<close> does not return
  \<^verbatim>\<open>None\<close>; the exception leaves it.
\<close>

theorem callRemote_raising_send_counterexample:
  "abstract_sender (Invoke ''connect'' 0 None ([] :: nat list)) = Some NotImplementedError
   \<and> fst (callRemote abstract_sender ''connect'' [] None one_pending) = Inl NotImplementedError
   \<and> fst (callRemote abstract_sender ''connect'' [] None one_pending) \<noteq> Inr ()"
  by (simp add: callRemote_def sendMessage_def abstract_sender_def)

text \<open>
  Claim C7, amended. For every name and argument list, \<^verbatim>\<open>callRemote\<close> hands
  \<^verbatim>\<open>sendMessage\<close> exactly one message, the invoke of the given name, command and
  arguments tagged with the sentinel id 0, and leaves the registry unchanged: no call is
  registered and \<^verbatim>\<open>_lastCallId\<close> does not advance. \<^verbatim>\<open>None\<close> is returned when
  \<^verbatim>\<open>sendMessage\<close> returns; when it raises, its exception leaves \<^verbatim>\<open>callRemote\<close>, the
  registry still unchanged.
\<close>

theorem callRemote_registry_unchanged:
  "callRemote sender name args command self
     = ((case sender (Invoke name 0 command args) of None \<Rightarrow> Inr () | Some e \<Rightarrow> Inl e),
        self\<lparr>sent := sent self @ [Invoke name 0 command args]\<rparr>)
   \<and> activeCalls (snd (callRemote sender name args command self)) = activeCalls self
   \<and> lastCallId (snd (callRemote sender name args command self)) = lastCallId self"
  by (cases "sender (Invoke name 0 command args)")
     (simp_all add: callRemote_def sendMessage_def NO_RESULT_def)

section \<open>Properties of the decoder\<close>

lemma Decoder_next_Message:
  "demuxer self = Message data meta # rest \<Longrightarrow>
   Decoder_next dispatcher self =
     (let st = (case streams self (meta_streamId meta) of
                  None \<Rightarrow> \<lparr>stream_timestamp = 0\<rparr> | Some s \<Rightarrow> s);
          t = stream_timestamp st + meta_timestamp meta;
          call = (meta_streamId meta, meta_datatype meta, t, data)
      in ((case dispatcher call of Some e \<Rightarrow> Inl (Raised e) | None \<Rightarrow> Inr ()),
          self\<lparr>demuxer := rest,
               streams := (streams self)(meta_streamId meta \<mapsto> st\<lparr>stream_timestamp := t\<rparr>),
               dispatched := dispatched self @ [call]\<rparr>))"
  by (cases "streams self (meta_streamId meta)")
     (auto simp add: Decoder_next_def getStream_def Let_def split: option.splits)

text \<open>
  Claim C8. Timestamps on the wire are deltas that the decoder adds to the stream's
  running clock. Let stream \<open>sid\<close> start at timestamp 0 (it is new to the factory, or
  known with timestamp 0) and let the demultiplexer yield message A and then message B,
  both on \<open>sid\<close>. After two calls of \<^verbatim>\<open>next\<close> the stream's timestamp is the sum of the
  two deltas (5 for the deltas 2 and 3), and the dispatcher was called with the
  accumulated timestamp each time: A's delta for A, the sum for B. This holds whether or
  not the dispatcher raises.
\<close>

theorem Decoder_timestamps_accumulate:
  assumes "demuxer self = Message dataA metaA # Message dataB metaB # rest"
    and "meta_streamId metaA = sid" and "meta_streamId metaB = sid"
    and "streams self sid = None \<or> streams self sid = Some \<lparr>stream_timestamp = 0\<rparr>"
  shows "streams (snd (Decoder_next dispatcher (snd (Decoder_next dispatcher self)))) sid
           = Some \<lparr>stream_timestamp = meta_timestamp metaA + meta_timestamp metaB\<rparr>
       \<and> dispatched (snd (Decoder_next dispatcher (snd (Decoder_next dispatcher self))))
           = dispatched self
             @ [(sid, meta_datatype metaA, meta_timestamp metaA, dataA),
                (sid, meta_datatype metaB, meta_timestamp metaA + meta_timestamp metaB, dataB)]"
proof -
  let ?s1 = "snd (Decoder_next dispatcher self)"
  have t0: "(case streams self sid of None \<Rightarrow> \<lparr>stream_timestamp = 0\<rparr> | Some s \<Rightarrow> s)
              = \<lparr>stream_timestamp = 0\<rparr>"
    using assms(4) by auto
  have s1: "?s1 = self\<lparr>demuxer := Message dataB metaB # rest,
               streams := (streams self)(sid \<mapsto> \<lparr>stream_timestamp = meta_timestamp metaA\<rparr>),
               dispatched := dispatched self
                 @ [(sid, meta_datatype metaA, meta_timestamp metaA, dataA)]\<rparr>"
    using Decoder_next_Message [OF assms(1), of dispatcher] assms(2) t0
    by (simp add: Let_def)
  have d1: "demuxer ?s1 = Message dataB metaB # rest"
    by (simp add: s1)
  show ?thesis
    using Decoder_next_Message [OF d1, of dispatcher] assms(3)
    by (simp add: Let_def s1)
qed

theorem Decoder_timestamps_accumulate_witness:
  "streams (snd (Decoder_next (\<lambda>c. None :: unit option)
        (snd (Decoder_next (\<lambda>c. None :: unit option) incrementing_decoder)))) 2
     = Some \<lparr>stream_timestamp = 5\<rparr>
   \<and> dispatched (snd (Decoder_next (\<lambda>c. None :: unit option)
        (snd (Decoder_next (\<lambda>c. None :: unit option) incrementing_decoder))))
     = [(2, None, 2, ''foo''), (2, None, 5, ''foo'')]"
proof -
  have h: "streams incrementing_decoder 2 = None
           \<or> streams incrementing_decoder 2 = Some \<lparr>stream_timestamp = 0\<rparr>"
    by (simp add: incrementing_decoder_def)
  show ?thesis
    using Decoder_timestamps_accumulate
      [of incrementing_decoder "''foo''" _ "''foo''" _ "[]" 2 "\<lambda>c. None :: unit option",
       OF _ _ _ h]
    by (simp add: incrementing_decoder_def)
qed

section \<open>Properties of the handshake tokens\<close>

subsection \<open>The server's digest\<close>

lemma ServerToken_getDigest_hit:
  "server_digest self = Some d \<Longrightarrow> ServerToken_getDigest env self = (Inr (Some d), self)"
  by (simp add: ServerToken_getDigest_def)

lemma ServerToken_getDigest_stores:
  "ServerToken_getDigest env self = (Inr (Some d), self1) \<Longrightarrow> server_digest self1 = Some d"
  by (auto simp add: ServerToken_getDigest_def Let_def
      split: option.splits prod.splits sum.splits)

lemma ServerToken_getDigest_computed:
  "server_digest self = None \<Longrightarrow> ServerToken_getDigest env self = (Inr (Some d), self1)
     \<Longrightarrow> \<exists>cd. d = digest env (SERVER_KEY env) cd"
  by (auto simp add: ServerToken_getDigest_def Let_def
      split: option.splits prod.splits sum.splits)

lemma digest_server_value:
  "ServerToken_getDigest example_env digest_server
     = (Inr (Some (replicate 32 0)),
        digest_server\<lparr>client := Some \<lparr>uptime = 0, version = 0x09007300,
                     payload = Some (replicate 8 0 @ replicate 4 1 @ replicate 4 2 @ replicate 32 0),
                     client_digest = Some (replicate 32 0)\<rparr>,
           server_digest := Some (replicate 32 0)\<rparr>)"
  by (simp add: ServerToken_getDigest_def ClientToken_getDigest_def digest_server_def
      example_env_def SHA256_DIGEST_LENGTH_def Let_def sum_list_replicate)

text \<open>
  Claim C9, as stated, fails on the server token of
  \<^verbatim>\<open>ServerTokenDigestTestCase.test_no_payload\<close>: its client token has version 0, below
  the minimum for digests, and \<^verbatim>\<open>getDigest\<close> does not return \<^verbatim>\<open>None\<close>: neither token
  has a payload, and it raises \<^verbatim>\<open>HandshakeError\<close>.
\<close>

theorem ServerToken_getDigest_no_payload_counterexample:
  "client unpopulated_server = Some ClientToken_init
   \<and> version ClientToken_init < H264_MIN_FLASH example_env
   \<and> server_digest unpopulated_server = None
   \<and> fst (ServerToken_getDigest example_env unpopulated_server)
       = Inl (HandshakeError ''No digest available for an empty handshake'')
   \<and> fst (ServerToken_getDigest example_env unpopulated_server) \<noteq> Inr None"
  by (simp add: ServerToken_getDigest_def unpopulated_server_def ServerToken_init_def
      ClientToken_init_def example_env_def)

text \<open>
  Claim C9, amended. \<^verbatim>\<open>ServerToken.getDigest\<close> computes its digest once and keeps it.
  When a call returns a digest \<open>d\<close>, the token holds \<open>d\<close> in \<^verbatim>\<open>_digest\<close> afterwards,
  and a later call returns \<open>d\<close> again and changes nothing, whatever the payload was set
  to in between (also \<^verbatim>\<open>None\<close>) and whatever the digest primitive would compute now;
  when the first call computed \<open>d\<close>, it has the 32 bytes of the digest primitive. A
  token that has a payload and keeps no digest yet returns \<^verbatim>\<open>None\<close> when it has no
  client token, and when its client token has a payload, keeps no digest and has a
  version below the minimum for digests.
\<close>

theorem ServerToken_getDigest_cached_once:
  "(ServerToken_getDigest env self = (Inr (Some d), self1) \<longrightarrow>
      server_digest self1 = Some d
      \<and> ServerToken_getDigest env' (self1\<lparr>payload := p\<rparr>) = (Inr (Some d), self1\<lparr>payload := p\<rparr>)
      \<and> (server_digest self = None \<and> (\<forall>key msg. length (digest env key msg) = 32)
           \<longrightarrow> length d = 32))
   \<and> (server_digest self = None \<and> payload self = Some q \<and> client self = None \<longrightarrow>
        ServerToken_getDigest env self = (Inr None, self))
   \<and> (server_digest self = None \<and> payload self = Some q \<and> client self = Some c
        \<and> client_digest c = None \<and> payload c = Some cp \<and> version c < H264_MIN_FLASH env \<longrightarrow>
        ServerToken_getDigest env self = (Inr None, self))"
proof (intro conjI impI)
  assume a: "ServerToken_getDigest env self = (Inr (Some d), self1)"
  show s: "server_digest self1 = Some d"
    using a by (rule ServerToken_getDigest_stores)
  show "ServerToken_getDigest env' (self1\<lparr>payload := p\<rparr>) = (Inr (Some d), self1\<lparr>payload := p\<rparr>)"
    by (rule ServerToken_getDigest_hit) (simp add: s)
next
  assume a: "ServerToken_getDigest env self = (Inr (Some d), self1)"
    and b: "server_digest self = None \<and> (\<forall>key msg. length (digest env key msg) = 32)"
  from b a obtain cd where "d = digest env (SERVER_KEY env) cd"
    using ServerToken_getDigest_computed by blast
  with b show "length d = 32" by simp
next
  assume "server_digest self = None \<and> payload self = Some q \<and> client self = None"
  then show "ServerToken_getDigest env self = (Inr None, self)"
    by (simp add: ServerToken_getDigest_def)
next
  assume a: "server_digest self = None \<and> payload self = Some q \<and> client self = Some c
        \<and> client_digest c = None \<and> payload c = Some cp \<and> version c < H264_MIN_FLASH env"
  then have "ClientToken_getDigest env c = (Inr None, c)"
    by (simp add: ClientToken_getDigest_def)
  moreover from a have "self\<lparr>client := Some c\<rparr> = self"
    by simp
  ultimately show "ServerToken_getDigest env self = (Inr None, self)"
    using a by (simp add: ServerToken_getDigest_def)
qed

theorem ServerToken_getDigest_cached_once_witness:
  "server_digest digest_server = None
   \<and> (\<forall>key msg. length (digest example_env key msg) = 32)
   \<and> fst (ServerToken_getDigest example_env digest_server) = Inr (Some (replicate 32 0))
   \<and> server_digest (snd (ServerToken_getDigest example_env digest_server)) = Some (replicate 32 0)
   \<and> ServerToken_getDigest example_env
        ((snd (ServerToken_getDigest example_env digest_server))\<lparr>payload := None\<rparr>)
       = (Inr (Some (replicate 32 0)),
          (snd (ServerToken_getDigest example_env digest_server))\<lparr>payload := None\<rparr>)
   \<and> length (replicate 32 (0 :: 8 word)) = 32
   \<and> client orphan_server = None
   \<and> ServerToken_getDigest example_env orphan_server = (Inr None, orphan_server)
   \<and> client legacy_server = Some (ClientToken_init\<lparr>payload := Some (replicate 1536 0)\<rparr>)
   \<and> version (ClientToken_init\<lparr>payload := Some (replicate 1536 0)\<rparr>)
       < H264_MIN_FLASH example_env
   \<and> ServerToken_getDigest example_env legacy_server = (Inr None, legacy_server)"
proof -
  let ?s1 = "snd (ServerToken_getDigest example_env digest_server)"
  let ?c = "ClientToken_init\<lparr>payload := Some (replicate 1536 0)\<rparr>"
  have a: "ServerToken_getDigest example_env digest_server = (Inr (Some (replicate 32 0)), ?s1)"
    by (simp add: digest_server_value)
  have a1: "fst (ServerToken_getDigest example_env digest_server) = Inr (Some (replicate 32 0))"
    by (simp add: digest_server_value)
  have b: "server_digest digest_server = None
           \<and> (\<forall>key msg. length (digest example_env key msg) = 32)"
    by (simp add: digest_server_def example_env_def)
  have c: "server_digest orphan_server = None \<and> payload orphan_server = Some [97]
           \<and> client orphan_server = None"
    by (simp add: orphan_server_def ServerToken_init_def)
  have d: "server_digest legacy_server = None \<and> payload legacy_server = Some [97]
           \<and> client legacy_server = Some ?c
           \<and> client_digest ?c = None \<and> payload ?c = Some (replicate 1536 0)
           \<and> version ?c < H264_MIN_FLASH example_env"
    by (simp add: legacy_server_def ClientToken_init_def example_env_def)
  have e: "server_digest ?s1 = Some (replicate 32 0)
           \<and> ServerToken_getDigest example_env (?s1\<lparr>payload := None\<rparr>)
               = (Inr (Some (replicate 32 0)), ?s1\<lparr>payload := None\<rparr>)
           \<and> length (replicate 32 (0 :: 8 word)) = 32"
    using a b ServerToken_getDigest_cached_once
                [of example_env digest_server "replicate 32 0" ?s1 example_env None]
    by blast
  have f: "ServerToken_getDigest example_env orphan_server = (Inr None, orphan_server)"
    using c ServerToken_getDigest_cached_once [of example_env orphan_server _ _ _ _ "[97]"]
    by blast
  have g: "ServerToken_getDigest example_env legacy_server = (Inr None, legacy_server)"
    using d ServerToken_getDigest_cached_once
              [of example_env legacy_server _ _ _ _ "[97]" ?c "replicate 1536 0"]
    by blast
  show ?thesis
    using a1 b c d e f g by blast
qed

subsection \<open>Generating the server's payload\<close>

text \<open>
  Claim C5, as stated, fails on the server token of
  \<^verbatim>\<open>ServerTokenClassTestCase.test_generate_payload\<close>: its client token is there and has
  no payload, and \<^verbatim>\<open>generatePayload\<close> raises \<^verbatim>\<open>HandshakeError\<close> with the message
  \<^verbatim>\<open>No digest available for an empty handshake\<close>, not with
  \<^verbatim>\<open>client token is required before generating server token\<close>.
\<close>

theorem ServerToken_generatePayload_message_counterexample:
  "client unpopulated_server = Some ClientToken_init
   \<and> payload ClientToken_init = None
   \<and> fst (ServerToken_generatePayload example_env unpopulated_server)
       = Inl (HandshakeError ''No digest available for an empty handshake'')
   \<and> fst (ServerToken_generatePayload example_env unpopulated_server)
       \<noteq> Inl (HandshakeError ''client token is required before generating server token'')"
  by (simp add: ServerToken_generatePayload_def unpopulated_server_def ServerToken_init_def
      ClientToken_init_def)

text \<open>
  Claim C5, amended. Calling \<^verbatim>\<open>ServerToken.generatePayload\<close> on a server token without
  payload raises \<^verbatim>\<open>HandshakeError\<close> and leaves the token as it was: with the message
  \<^verbatim>\<open>client token is required before generating server token\<close> when no client token is
  set, and with the message \<^verbatim>\<open>No digest available for an empty handshake\<close> when the
  client token is set and has no payload.
\<close>

theorem ServerToken_generatePayload_unpopulated_client:
  assumes "payload self = None"
  shows "(client self = None \<longrightarrow>
            ServerToken_generatePayload env self
              = (Inl (HandshakeError ''client token is required before generating server token''),
                 self))
         \<and> (client self = Some c \<and> payload c = None \<longrightarrow>
            ServerToken_generatePayload env self
              = (Inl (HandshakeError ''No digest available for an empty handshake''), self))"
  using assms by (simp add: ServerToken_generatePayload_def)

theorem ServerToken_generatePayload_unpopulated_client_witness:
  "payload (ServerToken_init None) = None
   \<and> client (ServerToken_init None) = None
   \<and> ServerToken_generatePayload example_env (ServerToken_init None)
       = (Inl (HandshakeError ''client token is required before generating server token''),
          ServerToken_init None)
   \<and> payload unpopulated_server = None
   \<and> client unpopulated_server = Some ClientToken_init
   \<and> payload ClientToken_init = None
   \<and> ServerToken_generatePayload example_env unpopulated_server
       = (Inl (HandshakeError ''No digest available for an empty handshake''), unpopulated_server)"
proof -
  have n: "payload (ServerToken_init None) = None"
    and m: "client (ServerToken_init None) = None"
    by (simp_all add: ServerToken_init_def)
  have a: "payload unpopulated_server = None"
    and b: "client unpopulated_server = Some ClientToken_init"
    and c: "payload ClientToken_init = None"
    by (simp_all add: unpopulated_server_def ServerToken_init_def ClientToken_init_def)
  have x: "ServerToken_generatePayload example_env (ServerToken_init None)
       = (Inl (HandshakeError ''client token is required before generating server token''),
          ServerToken_init None)"
    using m ServerToken_generatePayload_unpopulated_client [OF n, where env = example_env] by blast
  have y: "ServerToken_generatePayload example_env unpopulated_server
       = (Inl (HandshakeError ''No digest available for an empty handshake''), unpopulated_server)"
    using b c ServerToken_generatePayload_unpopulated_client
                [OF a, where env = example_env and c = ClientToken_init]
    by blast
  show ?thesis
    using n m a b c x y by blast
qed

end
